theory Spec2Isabelle
  imports Main "HOL-Library.AList"
begin

section \<open>Python strings\<close>

text \<open>
  A Python \<open>str\<close> is modelled as a \<open>string\<close>, one \<open>char\<close> per code point, so the
  model covers the strings whose code points lie below 256.  The functions of this section
  are the string methods the agent's code calls.
\<close>

abbreviation LF :: char where "LF \<equiv> CHR 0x0A"
abbreviation CR :: char where "CR \<equiv> CHR 0x0D"

text \<open>\<open>str.isspace\<close> on one character; \<open>\s\<close> of \<open>re\<close> on \<open>str\<close> patterns is the same set.\<close>

definition isspace :: "char \<Rightarrow> bool" where
  "isspace c = (c \<in> set [CHR 0x09, CHR 0x0A, CHR 0x0B, CHR 0x0C, CHR 0x0D,
                          CHR 0x1C, CHR 0x1D, CHR 0x1E, CHR 0x1F, CHR 0x20, CHR 0x85, CHR 0xA0])"

definition lstrip :: "string \<Rightarrow> string" where
  "lstrip s = dropWhile isspace s"

definition rstrip :: "string \<Rightarrow> string" where
  "rstrip s = rev (dropWhile isspace (rev s))"

definition strip :: "string \<Rightarrow> string" where
  "strip s = rstrip (lstrip s)"

definition startswith :: "string \<Rightarrow> string \<Rightarrow> bool" where
  "startswith s p = (take (length p) s = p)"


text \<open>\<open>sep.join(xs)\<close>.\<close>

fun join :: "string \<Rightarrow> string list \<Rightarrow> string" where
  "join sep [] = []"
| "join sep [x] = x"
| "join sep (x # y # ys) = x @ sep @ join sep (y # ys)"

text \<open>\<open>str(n)\<close> for an integer: decimal digits, a minus sign for negative numbers.\<close>

definition digit_char :: "nat \<Rightarrow> char" where
  "digit_char d = ''0123456789'' ! d"

function str_nat :: "nat \<Rightarrow> string" where
  "str_nat n = (if n < 10 then [digit_char n] else str_nat (n div 10) @ [digit_char (n mod 10)])"
  by pat_completeness auto
termination
  by (relation "measure id") auto

declare str_nat.simps [simp del]

definition str_int :: "int \<Rightarrow> string" where
  "str_int i = (if i < 0 then ''-'' @ str_nat (nat (- i)) else str_nat (nat i))"

text \<open>
  \<open>str.splitlines()\<close>: a line ends at \<open>\n\<close>, \<open>\r\<close>, \<open>\r\n\<close>, \<open>\x0b\<close>, \<open>\x0c\<close>,
  \<open>\x1c\<close>, \<open>\x1d\<close>, \<open>\x1e\<close> or \<open>\x85\<close>; the terminators are dropped, and a last line
  without terminator is kept when it is not empty.  The flag says that the character before
  was a \<open>\r\<close>, whose line is already closed, so that a \<open>\n\<close> right after it opens no new
  line.
\<close>

definition is_linebreak :: "char \<Rightarrow> bool" where
  "is_linebreak c = (c \<in> set [CHR 0x0A, CHR 0x0B, CHR 0x0C, CHR 0x0D,
                               CHR 0x1C, CHR 0x1D, CHR 0x1E, CHR 0x85])"

fun splitlines_from :: "bool \<Rightarrow> string \<Rightarrow> string \<Rightarrow> string list" where
  "splitlines_from after_cr cur [] = (if cur = [] then [] else [cur])"
| "splitlines_from after_cr cur (c # cs) =
     (if after_cr \<and> c = LF then splitlines_from False cur cs
      else if is_linebreak c then cur # splitlines_from (c = CR) [] cs
      else splitlines_from False (cur @ [c]) cs)"

definition splitlines :: "string \<Rightarrow> string list" where
  "splitlines s = splitlines_from False [] s"

text \<open>
  Reading a file opened in text mode with the default \<open>newline=None\<close> translates
  \<open>\r\n\<close> and a lone \<open>\r\<close> into \<open>\n\<close>.
\<close>

fun universal_newlines_from :: "bool \<Rightarrow> string \<Rightarrow> string" where
  "universal_newlines_from after_cr [] = []"
| "universal_newlines_from after_cr (c # cs) =
     (if after_cr \<and> c = LF then universal_newlines_from False cs
      else if c = CR then LF # universal_newlines_from True cs
      else c # universal_newlines_from False cs)"

definition universal_newlines :: "string \<Rightarrow> string" where
  "universal_newlines s = universal_newlines_from False s"

section \<open>Values, exceptions and the environment\<close>

text \<open>
  The values that \<open>json.loads\<close> produces and that the fields of a plan step hold (Python
  checks no annotation at run time).  A JSON object is an association list in insertion
  order.  JSON numbers with a fraction or an exponent are outside the model.
\<close>

datatype json =
    JNull
  | JBool bool
  | JInt int
  | JStr string
  | JArr "json list"
  | JObj "(string \<times> json) list"

text \<open>\<open>d.get(k, default)\<close> on a dict.\<close>

definition dict_get :: "(string \<times> json) list \<Rightarrow> string \<Rightarrow> json \<Rightarrow> json" where
  "dict_get kv k d = (case map_of kv k of None \<Rightarrow> d | Some v \<Rightarrow> v)"

text \<open>\<open>type(v).__name__\<close>, as it appears in the interpreter's error messages.\<close>

fun type_name :: "json \<Rightarrow> string" where
  "type_name JNull = ''NoneType''"
| "type_name (JBool b) = ''bool''"
| "type_name (JInt i) = ''int''"
| "type_name (JStr s) = ''str''"
| "type_name (JArr xs) = ''list''"
| "type_name (JObj kv) = ''dict''"

abbreviation SQ :: char where "SQ \<equiv> CHR 0x27"

definition no_attribute :: "json \<Rightarrow> string \<Rightarrow> string" where
  "no_attribute v a = [SQ] @ type_name v @ [SQ] @ '' object has no attribute '' @ [SQ] @ a @ [SQ]"

text \<open>
  Exceptions, each with the text that \<open>str(e)\<close> gives.  \<open>JSONDecodeError\<close> is a subclass
  of \<open>ValueError\<close>; its text is the json library's and no modelled path prints it.
\<close>

datatype exn =
    ValueError string
  | JSONDecodeError
  | KeyError string
  | TypeError string
  | AttributeError string
  | IndexError string
  | RuntimeError string
  | OSError string
  | OtherError string

fun exn_text :: "exn \<Rightarrow> string" where
  "exn_text (ValueError m) = m"
| "exn_text JSONDecodeError = []"
| "exn_text (KeyError k) = [SQ] @ k @ [SQ]"
| "exn_text (TypeError m) = m"
| "exn_text (AttributeError m) = m"
| "exn_text (IndexError m) = m"
| "exn_text (RuntimeError m) = m"
| "exn_text (OSError m) = m"
| "exn_text (OtherError m) = m"

text \<open>
  The file system, by resolved absolute path: no entry, a regular file with its text, or an
  entry that exists and cannot be opened (a directory, a file without permission).  Writing
  to a path without entry creates the file; the directories that \<open>mkdir\<close> creates on the
  way are not tracked.
\<close>

datatype node = Absent | File string | Denied

text \<open>What spawning a shell command gives: the process ran to its end (return code, decoded
  standard output and standard error, empty when not captured), \<open>FileNotFoundError\<close>, or
  any other exception with its text.\<close>

datatype proc_outcome =
    Exited "int option" string string
  | NotFound
  | Failed string

text \<open>
  Everything the code obtains from outside the repository: \<open>Path.resolve\<close>, the loaded
  configuration, the operator's answers (the \<open>i\<close>-th answer to \<open>Prompt.ask\<close>, the
  \<open>i\<close>-th answer to \<open>Confirm.ask\<close> or \<open>typer.confirm\<close>), the shell (the \<open>i\<close>-th
  spawn, with its effect on the files), \<open>Path.glob\<close> (the sorted matches relative to the
  base, or the text of the exception), the model API, the repository context collection,
  \<open>json.loads\<close>, and texts that the interpreter produces.
\<close>

record env =
  resolve :: "string \<Rightarrow> string"
  command_allowlist :: "string list"
  prompt_ask :: "nat \<Rightarrow> string"
  confirm_ask :: "nat \<Rightarrow> bool"
  spawn :: "nat \<Rightarrow> (string \<Rightarrow> node) \<Rightarrow> string \<Rightarrow> string \<Rightarrow> bool \<Rightarrow> proc_outcome \<times> (string \<Rightarrow> node)"
  glob_sorted :: "(string \<Rightarrow> node) \<Rightarrow> string \<Rightarrow> string \<Rightarrow> string + string list"
  chat :: "nat \<Rightarrow> string \<Rightarrow> exn + string"
  repo_context :: "(string \<Rightarrow> node) \<Rightarrow> string \<Rightarrow> string"
  json_loads :: "string \<Rightarrow> exn + json"
  os_error_text :: "string \<Rightarrow> string"
  type_error_text :: "string \<Rightarrow> json \<Rightarrow> string"
  str_container :: "json \<Rightarrow> string"

text \<open>
  The mutable state of a session: the files, the module-level table \<open>_pending_writes\<close>
  (resolved path to original and new content), and how many prompts, confirmations, spawns
  and model calls have happened.
\<close>

record world =
  fs :: "string \<Rightarrow> node"
  pending_writes :: "(string \<times> string \<times> string) list"
  prompts_asked :: nat
  confirms_asked :: nat
  spawned :: nat
  chats :: nat

text \<open>\<open>Confirm.ask\<close> and \<open>typer.confirm\<close>: the operator's next yes or no.\<close>

definition ask_confirm :: "env \<Rightarrow> world \<Rightarrow> bool \<times> world" where
  "ask_confirm e w = (confirm_ask e (confirms_asked w), w\<lparr>confirms_asked := Suc (confirms_asked w)\<rparr>)"

text \<open>\<open>str(v)\<close> as an f-string formats it.\<close>

fun py_str :: "env \<Rightarrow> json \<Rightarrow> string" where
  "py_str e JNull = ''None''"
| "py_str e (JBool b) = (if b then ''True'' else ''False'')"
| "py_str e (JInt i) = str_int i"
| "py_str e (JStr s) = s"
| "py_str e (JArr xs) = str_container e (JArr xs)"
| "py_str e (JObj kv) = str_container e (JObj kv)"

section \<open>The tool registry (\<open>nvcli/agent/tools.py\<close>)\<close>

definition read_file :: "env \<Rightarrow> world \<Rightarrow> string \<Rightarrow> string" where
  "read_file e w path =
     (case fs w (resolve e path) of
        Absent \<Rightarrow> ''[File not found: '' @ path @ '']''
      | Denied \<Rightarrow> ''[Error reading '' @ path @ '': '' @ os_error_text e path @ '']''
      | File raw \<Rightarrow>
          (let content = universal_newlines raw;
               lines = splitlines content
           in if length lines > 500
              then join [LF] (take 500 lines)
                   @ [LF] @ ''... [truncated, '' @ str_int (int (length lines) - 500) @ '' more lines]''
              else content))"

text \<open>
  What \<open>write_file\<close> reads before it writes: the text of the file, or the empty string
  when the path does not exist or cannot be read.
\<close>

definition current_text :: "env \<Rightarrow> world \<Rightarrow> string \<Rightarrow> string" where
  "current_text e w path =
     (case fs w (resolve e path) of File raw \<Rightarrow> universal_newlines raw | _ \<Rightarrow> [])"

definition write_file :: "env \<Rightarrow> string \<Rightarrow> string \<Rightarrow> bool \<Rightarrow> world \<Rightarrow> (exn + string) \<times> world" where
  "write_file e path content skip_confirm w =
     (let p = resolve e path;
          original = current_text e w path
      in if original = content then (Inr (''No changes needed for '' @ path), w)
         else
           (let (confirmed, w1) = (if \<not> skip_confirm then ask_confirm e w else (True, w))
            in if \<not> confirmed then (Inr (''Skipped: '' @ path), w1)
               else (case fs w1 p of
                       Denied \<Rightarrow> (Inl (OSError (os_error_text e path)), w1)
                     | _ \<Rightarrow>
                         (Inr (''Written: '' @ path),
                          w1\<lparr>fs := (fs w1)(p := File content),
                             pending_writes := AList.update p (original, content) (pending_writes w1)\<rparr>))))"

definition render_matches :: "string \<Rightarrow> string \<Rightarrow> string list \<Rightarrow> string" where
  "render_matches pattern path matches =
     (if matches = []
      then ''No files found matching '' @ [SQ] @ pattern @ [SQ] @ '' in '' @ [SQ] @ path @ [SQ]
      else ''Found '' @ str_int (int (length matches)) @ '' file(s):'' @ [LF]
           @ join [LF] (map (\<lambda>m. ''  '' @ m) (take 50 matches))
           @ (if length matches > 50
              then [LF] @ ''  ... and '' @ str_int (int (length matches) - 50) @ '' more''
              else []))"

definition search_files :: "env \<Rightarrow> world \<Rightarrow> string \<Rightarrow> string \<Rightarrow> exn + string" where
  "search_files e w pattern path =
     (case glob_sorted e (fs w) path pattern of
        Inl m \<Rightarrow> Inl (OtherError m)
      | Inr matches \<Rightarrow>
          if matches = []
          then (case glob_sorted e (fs w) path (''**/'' @ pattern) of
                  Inl m \<Rightarrow> Inl (OtherError m)
                | Inr matches2 \<Rightarrow> Inr (render_matches pattern path matches2))
          else Inr (render_matches pattern path matches))"

definition get_pending_diff :: "env \<Rightarrow> world \<Rightarrow> string \<Rightarrow> (string \<times> string) option" where
  "get_pending_diff e w file_path = map_of (pending_writes w) (resolve e file_path)"

definition clear_pending :: "env \<Rightarrow> string option \<Rightarrow> world \<Rightarrow> world" where
  "clear_pending e file_path w =
     (case file_path of
        None \<Rightarrow> w\<lparr>pending_writes := []\<rparr>
      | Some q \<Rightarrow> w\<lparr>pending_writes := AList.delete (resolve e q) (pending_writes w)\<rparr>)"

text \<open>\<open>command.split()[0]\<close>: the first run of characters that are not white space.\<close>

definition first_word :: "string \<Rightarrow> string option" where
  "first_word s = (let t = dropWhile isspace s
                   in if t = [] then None else Some (takeWhile (\<lambda>c. \<not> isspace c) t))"

text \<open>
  \<open>run_cmd(command, cwd, capture, skip_confirm)\<close>.  The command is a \<open>json\<close> value because
  the executor passes whatever the plan step holds: \<open>startswith\<close> fails on a value that is
  not a string as soon as the allowlist has an element to try, and the event loop rejects
  such a command inside the \<open>try\<close>.
\<close>

definition run_cmd ::
  "env \<Rightarrow> json \<Rightarrow> string \<Rightarrow> bool \<Rightarrow> bool \<Rightarrow> world \<Rightarrow> (exn + int \<times> string \<times> string) \<times> world" where
  "run_cmd e command cwd capture skip_confirm w =
     (case (case command of
              JStr c \<Rightarrow> Inr (list_ex (startswith c) (command_allowlist e))
            | v \<Rightarrow> if command_allowlist e = [] then Inr False
                   else Inl (AttributeError (no_attribute v ''startswith''))) of
        Inl x \<Rightarrow> (Inl x, w)
      | Inr in_allowlist \<Rightarrow>
          (let (confirmed, w1) =
                 (if \<not> skip_confirm \<and> \<not> in_allowlist then ask_confirm e w else (True, w))
           in if \<not> confirmed then (Inr (0, [], ''skipped''), w1)
              else
                (case command of
                   JStr c \<Rightarrow>
                     (let (outcome, fs') = spawn e (spawned w1) (fs w1) c cwd capture;
                          w2 = w1\<lparr>spawned := Suc (spawned w1), fs := fs'\<rparr>
                      in case outcome of
                           Exited rc out err \<Rightarrow>
                             (Inr (case rc of None \<Rightarrow> 0 | Some r \<Rightarrow> r, strip out, strip err), w2)
                         | NotFound \<Rightarrow>
                             (case first_word c of
                                None \<Rightarrow> (Inl (IndexError ''list index out of range''), w2)
                              | Some name \<Rightarrow> (Inr (127, [], ''Command not found: '' @ name), w2))
                         | Failed m \<Rightarrow> (Inr (1, [], m), w2))
                 | v \<Rightarrow> (Inr (1, [], ''cmd must be a string''), w1))))"

definition TOOL_MAP :: "string list" where
  "TOOL_MAP = [''read_file'', ''write_file'', ''search_files'', ''run_cmd'']"

section \<open>The plan model (\<open>nvcli/agent/planner.py\<close>)\<close>

text \<open>
  The dataclasses \<open>PlanStep\<close> and \<open>Plan\<close>.  Their fields are annotated \<open>int\<close>,
  \<open>str\<close> and \<open>dict\<close>, and hold whatever value the parser found in the model's JSON.
\<close>

record PlanStep =
  n :: json
  description :: json
  tool :: json
  args :: json


section \<open>The executor (\<open>nvcli/agent/executor.py\<close>)\<close>

record ExecutionResult =
  step :: PlanStep
  "output" :: string
  skipped :: bool
  aborted :: bool

text \<open>Truth value and \<open>==\<close> of Python on these values (\<open>True == 1\<close>; dicts compare as
  mappings, their keys being distinct).\<close>

fun py_truthy :: "json \<Rightarrow> bool" where
  "py_truthy JNull = False"
| "py_truthy (JBool b) = b"
| "py_truthy (JInt i) = (i \<noteq> 0)"
| "py_truthy (JStr s) = (s \<noteq> [])"
| "py_truthy (JArr xs) = (xs \<noteq> [])"
| "py_truthy (JObj kv) = (kv \<noteq> [])"

lemma size_member: "(a :: json) \<in> set xs \<Longrightarrow> size a < Suc (size_list size xs)"
  by (induction xs) auto

lemma size_zip_left: "((x :: json), y) \<in> set (zip xs ys) \<Longrightarrow> size x < Suc (size_list size xs)"
  by (rule size_member) (rule set_zip_leftD)

lemma size_dict_value:
  "map_of kv k = Some (v :: json) \<Longrightarrow> size v < Suc (size_list (size_prod (\<lambda>x. 0) size) kv)"
  by (induction kv) (auto split: if_splits)

function py_eq :: "json \<Rightarrow> json \<Rightarrow> bool" where
  "py_eq JNull b = (b = JNull)"
| "py_eq (JBool a) b = (b = JBool a \<or> b = JInt (if a then 1 else 0))"
| "py_eq (JInt a) b = (b = JInt a \<or> (a = 1 \<and> b = JBool True) \<or> (a = 0 \<and> b = JBool False))"
| "py_eq (JStr a) b = (b = JStr a)"
| "py_eq (JArr xs) b =
     (case b of
        JArr ys \<Rightarrow> length xs = length ys \<and> (\<forall>(x, y) \<in> set (zip xs ys). py_eq x y)
      | _ \<Rightarrow> False)"
| "py_eq (JObj kv) b =
     (case b of
        JObj kv' \<Rightarrow>
          (\<forall>k \<in> set (map fst kv @ map fst kv').
             case map_of kv k of
               None \<Rightarrow> False
             | Some v \<Rightarrow> (case map_of kv' k of None \<Rightarrow> False | Some v' \<Rightarrow> py_eq v v'))
      | _ \<Rightarrow> False)"
  by pat_completeness auto
termination
  by (relation "measure (\<lambda>(a, b). size a)")
     (auto dest: size_zip_left size_dict_value)

text \<open>\<open>step.args.get(k, default)\<close>, which needs \<open>args\<close> to be a dict.\<close>

definition with_args ::
  "json \<Rightarrow> world \<Rightarrow> ((string \<times> json) list \<Rightarrow> (exn + string) \<times> world) \<Rightarrow> (exn + string) \<times> world" where
  "with_args a w f =
     (case a of
        JObj kv \<Rightarrow> f kv
      | v \<Rightarrow> (Inl (AttributeError (no_attribute v ''get'')), w))"

text \<open>
  The body of the \<open>try\<close> of \<open>_execute_tool\<close>: the chain of comparisons of the tool name.
  A value that is not a string makes \<open>Path\<close>, \<open>glob\<close> and the diff display raise before
  anything is changed.
\<close>

definition dispatch :: "env \<Rightarrow> string \<Rightarrow> json \<Rightarrow> world \<Rightarrow> (exn + string) \<times> world" where
  "dispatch e t a w =
     (if t = ''read_file'' then
        with_args a w (\<lambda>kv.
          case dict_get kv ''path'' (JStr []) of
            JStr p \<Rightarrow> (Inr (read_file e w p), w)
          | v \<Rightarrow> (Inl (TypeError (type_error_text e ''Path'' v)), w))
      else if t = ''write_file'' then
        with_args a w (\<lambda>kv.
          let content_hint = dict_get kv ''content_hint'' (JStr []);
              path = dict_get kv ''path'' (JStr []);
              content = dict_get kv ''content'' content_hint
          in if \<not> py_truthy content \<or> py_eq content content_hint
             then (Inr (''Skipped write_file('' @ py_str e path
                          @ ''): content generation requires model call (Task 5)''), w)
             else (case path of
                     JStr p \<Rightarrow>
                       (case content of
                          JStr c \<Rightarrow> write_file e p c False w
                        | v \<Rightarrow> (Inl (AttributeError (no_attribute v ''splitlines'')), w))
                   | v \<Rightarrow> (Inl (TypeError (type_error_text e ''Path'' v)), w)))
      else if t = ''search_files'' then
        with_args a w (\<lambda>kv.
          let pattern = dict_get kv ''pattern'' (JStr ''*'');
              path = dict_get kv ''path'' (JStr ''.'')
          in case path of
               JStr p \<Rightarrow>
                 (case pattern of
                    JStr pat \<Rightarrow> (search_files e w pat p, w)
                  | v \<Rightarrow> (Inl (OtherError (type_error_text e ''glob'' v)), w))
             | v \<Rightarrow> (Inl (TypeError (type_error_text e ''Path'' v)), w))
      else if t = ''run_cmd'' then
        with_args a w (\<lambda>kv.
          let command = dict_get kv ''command'' (JStr [])
          in case run_cmd e command ''.'' True False w of
               (Inl x, w') \<Rightarrow> (Inl x, w')
             | (Inr (exit_code, stdout, stderr), w') \<Rightarrow>
                 (Inr (''exit_code='' @ str_int exit_code @ [LF]
                       @ ''stdout='' @ take 500 stdout @ [LF]
                       @ ''stderr='' @ take 200 stderr), w'))
      else (Inr (''Tool '' @ [SQ] @ t @ [SQ] @ '' not yet implemented''), w))"

text \<open>
  \<open>_execute_tool\<close>.  \<open>TOOL_MAP.get\<close> hashes the tool value before the \<open>try\<close>, so a list
  or a dict there raises out of the function; a name that is not registered gives the
  ``unknown tool'' output; every exception of the dispatch becomes an output.
\<close>

definition execute_tool :: "env \<Rightarrow> PlanStep \<Rightarrow> world \<Rightarrow> (exn + string) \<times> world" where
  "execute_tool e stp w =
     (case tool stp of
        JArr xs \<Rightarrow> (Inl (TypeError (''unhashable type: '' @ [SQ] @ ''list'' @ [SQ])), w)
      | JObj kv \<Rightarrow> (Inl (TypeError (''unhashable type: '' @ [SQ] @ ''dict'' @ [SQ])), w)
      | JStr t \<Rightarrow>
          if t \<notin> set TOOL_MAP then (Inr (''Unknown tool: '' @ t), w)
          else (case dispatch e t (args stp) w of
                  (Inl x, w') \<Rightarrow> (Inr (''Error in '' @ t @ '': '' @ exn_text x), w')
                | (Inr out, w') \<Rightarrow> (Inr out, w'))
      | v \<Rightarrow> (Inr (''Unknown tool: '' @ py_str e v), w))"



section \<open>The planner (\<open>nvcli/agent/planner.py\<close>)\<close>

subsection \<open>The two substitutions and the search of \<open>_parse_plan_json\<close>\<close>








subsection \<open>From the decoded value to the plan\<close>










section \<open>The fix loop (\<open>nvcli/commands/run.py\<close>)\<close>








section \<open>A JSON decoder for the sample environments\<close>

text \<open>
  \<open>json.loads\<close> belongs to the environment.  The sample environments take this decoder
  for it, a recursive descent over the text as the library's scanner is one: objects,
  arrays, strings with their escapes, integers and the three literals, white space between
  the tokens, nothing but white space behind the value.  A number with a fraction or an
  exponent, \<open>NaN\<close>, \<open>Infinity\<close> and an escape above code point 255 are outside the model
  and reported as such; every other failure is the library's \<open>JSONDecodeError\<close>.  The
  first argument bounds the nesting; one more than the length of the text is enough for
  every text.
\<close>

definition outside_model :: exn where
  "outside_model = OtherError ''outside the model''"

definition json_ws :: "char \<Rightarrow> bool" where
  "json_ws c = (c \<in> set [CHR 0x20, CHR 0x09, CHR 0x0A, CHR 0x0D])"

definition skip_ws :: "string \<Rightarrow> string" where
  "skip_ws s = dropWhile json_ws s"

definition is_digit :: "char \<Rightarrow> bool" where
  "is_digit c = (c \<in> set ''0123456789'')"

definition hex_value :: "char \<Rightarrow> nat option" where
  "hex_value c = map_of (zip ''0123456789abcdefABCDEF''
                          [0, 1, 2, 3, 4, 5, 6, 7, 8, 9, 10, 11, 12, 13, 14, 15, 10, 11, 12, 13, 14, 15]) c"

definition hex4 :: "string \<Rightarrow> nat option" where
  "hex4 s =
     (if length s = 4 \<and> list_all (\<lambda>c. hex_value c \<noteq> None) s
      then Some (foldl (\<lambda>a c. 16 * a + the (hex_value c)) 0 s)
      else None)"

definition simple_escape :: "char \<Rightarrow> char option" where
  "simple_escape c =
     map_of [(CHR 0x22, CHR 0x22), (CHR 0x5C, CHR 0x5C), (CHR ''/'', CHR ''/''), (CHR ''b'', CHR 0x08),
             (CHR ''f'', CHR 0x0C), (CHR ''n'', CHR 0x0A), (CHR ''r'', CHR 0x0D), (CHR ''t'', CHR 0x09)] c"

text \<open>The text behind an opening double quote: the decoded string and what follows its
  closing quote.\<close>

function scan_string :: "string \<Rightarrow> string \<Rightarrow> exn + string \<times> string" where
  "scan_string acc [] = Inl JSONDecodeError"
| "scan_string acc (c # cs) =
     (if c = CHR 0x22 then Inr (acc, cs)
      else if c = CHR 0x5C then
        (case cs of
           [] \<Rightarrow> Inl JSONDecodeError
         | x # xs \<Rightarrow>
             if x = CHR ''u'' then
               (case hex4 (take 4 xs) of
                  None \<Rightarrow> Inl JSONDecodeError
                | Some k \<Rightarrow>
                    if k < 256 then scan_string (acc @ [char_of k]) (drop 4 xs) else Inl outside_model)
             else (case simple_escape x of
                     None \<Rightarrow> Inl JSONDecodeError
                   | Some y \<Rightarrow> scan_string (acc @ [y]) xs))
      else if (of_char c :: nat) < 32 then Inl JSONDecodeError
      else scan_string (acc @ [c]) cs)"
  by pat_completeness auto
termination
  by (relation "measure (\<lambda>(acc, s). length s)") auto

definition float_tail :: "string \<Rightarrow> bool" where
  "float_tail r =
     (case r of
        [] \<Rightarrow> False
      | c # cs \<Rightarrow>
          if c = CHR ''.'' then cs \<noteq> [] \<and> is_digit (hd cs)
          else if c = CHR ''e'' \<or> c = CHR ''E'' then
            (case cs of
               [] \<Rightarrow> False
             | d # ds \<Rightarrow> is_digit d \<or> ((d = CHR ''+'' \<or> d = CHR ''-'') \<and> ds \<noteq> [] \<and> is_digit (hd ds)))
          else False)"

definition digits_value :: "string \<Rightarrow> int" where
  "digits_value ds = foldl (\<lambda>a c. 10 * a + int (the (hex_value c))) 0 ds"

definition scan_number :: "string \<Rightarrow> exn + json \<times> string" where
  "scan_number s =
     (let negative = (s \<noteq> [] \<and> hd s = CHR ''-'');
          r = (if negative then tl s else s)
      in if r \<noteq> [] \<and> is_digit (hd r) then
           (let ds = (if hd r = CHR ''0'' then ''0'' else takeWhile is_digit r);
                rest = drop (length ds) r
            in if float_tail rest then Inl outside_model
               else Inr (JInt (if negative then - digits_value ds else digits_value ds), rest))
         else if startswith s ''NaN'' \<or> startswith s ''Infinity'' \<or> startswith s ''-Infinity''
         then Inl outside_model
         else Inl JSONDecodeError)"

fun parse_value :: "nat \<Rightarrow> string \<Rightarrow> exn + json \<times> string"
  and parse_members :: "nat \<Rightarrow> (string \<times> json) list \<Rightarrow> string \<Rightarrow> exn + json \<times> string"
  and parse_items :: "nat \<Rightarrow> json list \<Rightarrow> string \<Rightarrow> exn + json \<times> string" where
  "parse_value 0 s = Inl (OtherError ''nesting too deep'')"
| "parse_value (Suc d) s =
     (if s = [] then Inl JSONDecodeError
      else if hd s = CHR 0x22 then
        (case scan_string [] (tl s) of Inl x \<Rightarrow> Inl x | Inr (t, r) \<Rightarrow> Inr (JStr t, r))
      else if hd s = CHR ''{'' then
        (let r = skip_ws (tl s)
         in if r \<noteq> [] \<and> hd r = CHR ''}'' then Inr (JObj [], tl r) else parse_members d [] r)
      else if hd s = CHR ''['' then
        (let r = skip_ws (tl s)
         in if r \<noteq> [] \<and> hd r = CHR '']'' then Inr (JArr [], tl r) else parse_items d [] r)
      else if startswith s ''null'' then Inr (JNull, drop 4 s)
      else if startswith s ''true'' then Inr (JBool True, drop 4 s)
      else if startswith s ''false'' then Inr (JBool False, drop 5 s)
      else scan_number s)"
| "parse_members 0 kv s = Inl (OtherError ''nesting too deep'')"
| "parse_members (Suc d) kv s =
     (if s \<noteq> [] \<and> hd s = CHR 0x22 then
        (case scan_string [] (tl s) of
           Inl x \<Rightarrow> Inl x
         | Inr (k, r) \<Rightarrow>
             (let r1 = skip_ws r
              in if r1 \<noteq> [] \<and> hd r1 = CHR '':'' then
                   (case parse_value d (skip_ws (tl r1)) of
                      Inl x \<Rightarrow> Inl x
                    | Inr (v, r2) \<Rightarrow>
                        (let kv' = AList.update k v kv;
                             r3 = skip_ws r2
                         in if r3 \<noteq> [] \<and> hd r3 = CHR ''}'' then Inr (JObj kv', tl r3)
                            else if r3 \<noteq> [] \<and> hd r3 = CHR '','' then parse_members d kv' (skip_ws (tl r3))
                            else Inl JSONDecodeError))
                 else Inl JSONDecodeError))
      else Inl JSONDecodeError)"
| "parse_items 0 xs s = Inl (OtherError ''nesting too deep'')"
| "parse_items (Suc d) xs s =
     (case parse_value d s of
        Inl x \<Rightarrow> Inl x
      | Inr (v, r) \<Rightarrow>
          (let r1 = skip_ws r
           in if r1 \<noteq> [] \<and> hd r1 = CHR '']'' then Inr (JArr (xs @ [v]), tl r1)
              else if r1 \<noteq> [] \<and> hd r1 = CHR '','' then parse_items d (xs @ [v]) (skip_ws (tl r1))
              else Inl JSONDecodeError))"

definition json_decode :: "string \<Rightarrow> exn + json" where
  "json_decode s =
     (let t = skip_ws s
      in case parse_value (Suc (length t)) t of
           Inl x \<Rightarrow> Inl x
         | Inr (v, r) \<Rightarrow> if skip_ws r = [] then Inr v else Inl JSONDecodeError)"

section \<open>Sample environments\<close>

text \<open>
  An environment and worlds on which the theorems below are run: relative paths resolve
  below \<open>/repo\<close>, the operator answers \<open>y\<close> and confirms, every command exits with 0, no
  pattern matches and the model API is unreachable.
\<close>

definition quiet_env :: env where
  "quiet_env =
     \<lparr>resolve = (\<lambda>p. ''/repo/'' @ (if take 2 p = ''./'' then drop 2 p else p)),
      command_allowlist = [],
      prompt_ask = (\<lambda>i. ''y''),
      confirm_ask = (\<lambda>i. True),
      spawn = (\<lambda>i f c d cap. (Exited (Some 0) [] [], f)),
      glob_sorted = (\<lambda>f b p. Inr []),
      chat = (\<lambda>i m. Inl (RuntimeError ''offline'')),
      repo_context = (\<lambda>f p. []),
      json_loads = json_decode,
      os_error_text = (\<lambda>p. ''[Errno 13] Permission denied''),
      type_error_text = (\<lambda>site v. ''expected str''),
      str_container = (\<lambda>v. ''[...]'')\<rparr>"

definition world_with :: "(string \<Rightarrow> node) \<Rightarrow> world" where
  "world_with f =
     \<lparr>fs = f, pending_writes = [], prompts_asked = 0, confirms_asked = 0, spawned = 0, chats = 0\<rparr>"


subsection \<open>Sample plans\<close>


definition hinted_write :: PlanStep where
  "hinted_write =
     \<lparr>n = JInt 2, description = JStr ''add logging'', tool = JStr ''write_file'',
      args = JObj [(''path'', JStr ''app.py''), (''content_hint'', JStr ''add a logger'')]\<rparr>"

definition literal_write :: PlanStep where
  "literal_write =
     \<lparr>n = JInt 2, description = JStr ''add logging'', tool = JStr ''write_file'',
      args = JObj [(''path'', JStr ''app.py''), (''content_hint'', JStr ''add a logger''),
                   (''content'', JStr ''import logging'')]\<rparr>"










section \<open>Notions used in the statements\<close>

text \<open>The output of a \<open>write_file\<close> step that carries no content of its own.\<close>

definition needs_content :: "env \<Rightarrow> json \<Rightarrow> string" where
  "needs_content e path =
     ''Skipped write_file('' @ py_str e path @ ''): content generation requires model call (Task 5)''"








section \<open>Properties of the tool registry\<close>

subsection \<open>Reading files\<close>







subsection \<open>Pending writes\<close>

lemma write_file_written:
  assumes "write_file e p c sk w = (Inr (''Written: '' @ p), w')"
  shows "pending_writes w' = AList.update (resolve e p) (current_text e w p, c) (pending_writes w)"
    and "fs w' = (fs w)(resolve e p := File c)"
    and "current_text e w p \<noteq> c"
  using assms
  by (auto simp: write_file_def Let_def ask_confirm_def
           split: if_splits node.splits prod.splits)

lemma one_entry_per_key:
  "distinct (map fst al) \<Longrightarrow> k \<in> fst ` set al \<Longrightarrow> length (filter (\<lambda>kv. fst kv = k) al) = 1"
proof (induction al)
  case Nil
  then show ?case by simp
next
  case (Cons a al)
  show ?case
  proof (cases "fst a = k")
    case True
    with Cons.prems have "k \<notin> fst ` set al"
      by simp
    then have "filter (\<lambda>kv. fst kv = k) al = []"
      unfolding filter_empty_conv by (metis image_eqI)
    with True show ?thesis by simp
  next
    case False
    with Cons show ?thesis by auto
  qed
qed

text \<open>
  C10.  After a successful write of \<open>c\<close> to \<open>p\<close>, \<open>get_pending_diff\<close> on any path that
  resolves like \<open>p\<close> gives the text read before the write and \<open>c\<close>; a path whose
  resolved form is not in the table gives \<open>None\<close>; \<open>clear_pending\<close> on such an alias
  removes that entry and no other, and leaves the files alone; \<open>clear_pending\<close> without a
  path empties the table.
\<close>

theorem pending_keyed_by_resolved_path:
  assumes "write_file e p c sk w = (Inr (''Written: '' @ p), w')"
    and "resolve e q = resolve e p"
  shows "get_pending_diff e w' q = Some (current_text e w p, c)
       \<and> (resolve e q' \<notin> fst ` set (pending_writes w') \<longrightarrow> get_pending_diff e w' q' = None)
       \<and> get_pending_diff e (clear_pending e (Some q) w') q'
            = (if resolve e q' = resolve e p then None else get_pending_diff e w' q')
       \<and> pending_writes (clear_pending e (Some q) w')
            = filter (\<lambda>kv. resolve e p \<noteq> fst kv) (pending_writes w')
       \<and> fs (clear_pending e (Some q) w') = fs w'
       \<and> pending_writes (clear_pending e None w') = []"
proof -
  have 1: "get_pending_diff e w' q = Some (current_text e w p, c)"
    using write_file_written(1) [OF assms(1)] assms(2)
    by (simp add: get_pending_diff_def update_conv')
  have 2: "resolve e q' \<notin> fst ` set (pending_writes w') \<longrightarrow> get_pending_diff e w' q' = None"
    by (simp add: get_pending_diff_def map_of_eq_None_iff)
  have 3: "get_pending_diff e (clear_pending e (Some q) w') q'
            = (if resolve e q' = resolve e p then None else get_pending_diff e w' q')"
    using assms(2) by (simp add: get_pending_diff_def clear_pending_def delete_conv')
  have 4: "pending_writes (clear_pending e (Some q) w')
            = filter (\<lambda>kv. resolve e p \<noteq> fst kv) (pending_writes w')"
    using assms(2) by (simp add: clear_pending_def AList.delete_eq case_prod_unfold)
  show ?thesis using 1 2 3 4 by (simp add: clear_pending_def)
qed

lemma write_notes:
  "write_file quiet_env ''notes.txt'' ''new'' False
     (world_with (\<lambda>p. if p = ''/repo/notes.txt'' then File ''old'' else Absent))
   = (Inr ''Written: notes.txt'',
      \<lparr>fs = (\<lambda>p. if p = ''/repo/notes.txt'' then File ''old'' else Absent)
               (''/repo/notes.txt'' := File ''new''),
       pending_writes = [(''/repo/notes.txt'', ''old'', ''new'')],
       prompts_asked = 0, confirms_asked = Suc 0, spawned = 0, chats = 0\<rparr>)"
  by (simp add: write_file_def current_text_def quiet_env_def world_with_def ask_confirm_def
        universal_newlines_def Let_def)

theorem pending_keyed_by_resolved_path_witness:
  "get_pending_diff quiet_env
     (snd (write_file quiet_env ''notes.txt'' ''new'' False
            (world_with (\<lambda>p. if p = ''/repo/notes.txt'' then File ''old'' else Absent))))
     ''./notes.txt'' = Some (''old'', ''new'')
   \<and> get_pending_diff quiet_env
     (snd (write_file quiet_env ''notes.txt'' ''new'' False
            (world_with (\<lambda>p. if p = ''/repo/notes.txt'' then File ''old'' else Absent))))
     ''other.txt'' = None
   \<and> get_pending_diff quiet_env
       (clear_pending quiet_env (Some ''./notes.txt'')
         (snd (write_file quiet_env ''notes.txt'' ''new'' False
            (world_with (\<lambda>p. if p = ''/repo/notes.txt'' then File ''old'' else Absent)))))
       ''notes.txt'' = None"
  using pending_keyed_by_resolved_path
    [of quiet_env "''notes.txt''" "''new''" False
        "world_with (\<lambda>p. if p = ''/repo/notes.txt'' then File ''old'' else Absent)"
        "snd (write_file quiet_env ''notes.txt'' ''new'' False
            (world_with (\<lambda>p. if p = ''/repo/notes.txt'' then File ''old'' else Absent)))"
        "''./notes.txt''" "''other.txt''"]
    pending_keyed_by_resolved_path
    [of quiet_env "''notes.txt''" "''new''" False
        "world_with (\<lambda>p. if p = ''/repo/notes.txt'' then File ''old'' else Absent)"
        "snd (write_file quiet_env ''notes.txt'' ''new'' False
            (world_with (\<lambda>p. if p = ''/repo/notes.txt'' then File ''old'' else Absent)))"
        "''./notes.txt''" "''notes.txt''"]
  by (simp add: write_notes)
     (simp add: quiet_env_def world_with_def current_text_def universal_newlines_def)

text \<open>
  C2, as the code has it.  The table never holds two entries for one resolved path.  A
  second successful write to the same path replaces the whole entry: its new value is the
  second content, and its original value is the text read from the file just before the
  second write, which is the first content as it reads back, not the original that the
  first write captured.
\<close>

theorem second_write_replaces_pending_entry:
  assumes "distinct (map fst (pending_writes w))"
    and "write_file e p1 c1 sk1 w = (Inr (''Written: '' @ p1), w1)"
    and "write_file e p2 c2 sk2 w1 = (Inr (''Written: '' @ p2), w2)"
    and "resolve e p2 = resolve e p1"
  shows "distinct (map fst (pending_writes w1))
       \<and> distinct (map fst (pending_writes w2))
       \<and> length (filter (\<lambda>kv. fst kv = resolve e p1) (pending_writes w2)) = 1
       \<and> get_pending_diff e w1 p1 = Some (current_text e w p1, c1)
       \<and> get_pending_diff e w2 p1 = Some (universal_newlines c1, c2)"
proof -
  note a = write_file_written [OF assms(2)]
  note b = write_file_written [OF assms(3)]
  have d1: "distinct (map fst (pending_writes w1))"
    using assms(1) a(1) by (simp add: distinct_update)
  have d2: "distinct (map fst (pending_writes w2))"
    using d1 b(1) by (simp add: distinct_update)
  have "resolve e p1 \<in> fst ` set (pending_writes w2)"
    using b(1) assms(4) by (simp add: dom_update)
  then have one: "length (filter (\<lambda>kv. fst kv = resolve e p1) (pending_writes w2)) = 1"
    using d2 by (rule one_entry_per_key [rotated])
  have g1: "get_pending_diff e w1 p1 = Some (current_text e w p1, c1)"
    using a(1) by (simp add: get_pending_diff_def update_conv')
  have "current_text e w1 p2 = universal_newlines c1"
    using a(2) assms(4) by (simp add: current_text_def)
  then have g2: "get_pending_diff e w2 p1 = Some (universal_newlines c1, c2)"
    using b(1) assms(4) by (simp add: get_pending_diff_def update_conv')
  from d1 d2 one g1 g2 show ?thesis by simp
qed

lemma write_v1:
  "write_file quiet_env ''a.txt'' ''v1'' True (world_with (\<lambda>p. File ''v0''))
   = (Inr ''Written: a.txt'',
      \<lparr>fs = (\<lambda>p. File ''v0'')(''/repo/a.txt'' := File ''v1''),
       pending_writes = [(''/repo/a.txt'', ''v0'', ''v1'')],
       prompts_asked = 0, confirms_asked = 0, spawned = 0, chats = 0\<rparr>)"
  by (simp add: write_file_def current_text_def quiet_env_def world_with_def universal_newlines_def
        Let_def)

lemma write_v2:
  "write_file quiet_env ''./a.txt'' ''v2'' True
      \<lparr>fs = (\<lambda>p. File ''v0'')(''/repo/a.txt'' := File ''v1''),
       pending_writes = [(''/repo/a.txt'', ''v0'', ''v1'')],
       prompts_asked = 0, confirms_asked = 0, spawned = 0, chats = 0\<rparr>
   = (Inr ''Written: ./a.txt'',
      \<lparr>fs = (\<lambda>p. File ''v0'')(''/repo/a.txt'' := File ''v2''),
       pending_writes = [(''/repo/a.txt'', ''v1'', ''v2'')],
       prompts_asked = 0, confirms_asked = 0, spawned = 0, chats = 0\<rparr>)"
  by (simp add: write_file_def current_text_def quiet_env_def universal_newlines_def Let_def)

theorem second_write_replaces_pending_entry_witness:
  "get_pending_diff quiet_env
     (snd (write_file quiet_env ''./a.txt'' ''v2'' True
        (snd (write_file quiet_env ''a.txt'' ''v1'' True (world_with (\<lambda>p. File ''v0''))))))
     ''a.txt'' = Some (''v1'', ''v2'')
   \<and> pending_writes
     (snd (write_file quiet_env ''./a.txt'' ''v2'' True
        (snd (write_file quiet_env ''a.txt'' ''v1'' True (world_with (\<lambda>p. File ''v0''))))))
     = [(''/repo/a.txt'', ''v1'', ''v2'')]"
  using second_write_replaces_pending_entry
    [of "world_with (\<lambda>p. File ''v0'')" quiet_env "''a.txt''" "''v1''" True
        "snd (write_file quiet_env ''a.txt'' ''v1'' True (world_with (\<lambda>p. File ''v0'')))"
        "''./a.txt''" "''v2''" True
        "snd (write_file quiet_env ''./a.txt'' ''v2'' True
          (snd (write_file quiet_env ''a.txt'' ''v1'' True (world_with (\<lambda>p. File ''v0'')))))"]
  by (simp add: write_v1 write_v2)
     (simp add: world_with_def quiet_env_def universal_newlines_def)

theorem first_original_lost_counterexample:
  "get_pending_diff quiet_env
     (snd (write_file quiet_env ''a.txt'' ''v1'' True (world_with (\<lambda>p. File ''v0''))))
     ''a.txt'' = Some (''v0'', ''v1'')
   \<and> get_pending_diff quiet_env
     (snd (write_file quiet_env ''a.txt'' ''v2'' True
        (snd (write_file quiet_env ''a.txt'' ''v1'' True (world_with (\<lambda>p. File ''v0''))))))
     ''a.txt'' = Some (''v1'', ''v2'')
   \<and> get_pending_diff quiet_env
     (snd (write_file quiet_env ''a.txt'' ''v2'' True
        (snd (write_file quiet_env ''a.txt'' ''v1'' True (world_with (\<lambda>p. File ''v0''))))))
     ''a.txt'' \<noteq> Some (''v0'', ''v2'')"
  by (simp add: write_v1)
     (simp add: write_file_def current_text_def quiet_env_def universal_newlines_def
        get_pending_diff_def Let_def)

subsection \<open>Running commands\<close>





section \<open>Properties of the executor\<close>

lemma py_eq_refl: "py_eq v v"
proof (induction v)
  case (JArr xs)
  then show ?case by (auto simp: set_zip)
next
  case (JObj kv)
  have "\<And>k v. map_of kv k = Some v \<Longrightarrow> py_eq v v"
  proof -
    fix k v assume "map_of kv k = Some v"
    then have "(k, v) \<in> set kv" by (rule map_of_SomeD)
    with JObj show "py_eq v v" by (auto simp: snds.simps)
  qed
  moreover have "\<And>k. k \<in> fst ` set kv \<Longrightarrow> map_of kv k \<noteq> None"
    by (simp add: map_of_eq_None_iff)
  ultimately show ?case by (auto split: option.splits)
qed simp_all

subsection \<open>Unregistered tools\<close>




subsection \<open>Dispatch of \<open>write_file\<close>\<close>

text \<open>
  C7.  For a \<open>write_file\<close> step, let \<open>content\<close> be \<open>args.content\<close>, or the hint when
  there is none.  When \<open>content\<close> is empty or equal to the hint, in particular when the
  step has no \<open>content\<close> or an empty one, the dispatch returns the sentinel and leaves the
  world as it is: no question, no file written, nothing recorded.  Only a non-empty content
  that differs from the hint reaches \<open>write_file\<close>, whose result is the step's output.
\<close>

theorem write_file_dispatch_needs_literal_content:
  assumes "tool stp = JStr ''write_file''" and "args stp = JObj kv"
    and "hint = dict_get kv ''content_hint'' (JStr [])"
    and "path = dict_get kv ''path'' (JStr [])"
    and "content = dict_get kv ''content'' hint"
  shows "(\<not> py_truthy content \<or> py_eq content hint \<longrightarrow>
            execute_tool e stp w = (Inr (needs_content e path), w))
       \<and> (map_of kv ''content'' = None \<longrightarrow> execute_tool e stp w = (Inr (needs_content e path), w))
       \<and> (map_of kv ''content'' = Some (JStr []) \<longrightarrow>
            execute_tool e stp w = (Inr (needs_content e path), w))
       \<and> (py_truthy content \<and> \<not> py_eq content hint \<and> path = JStr p \<and> content = JStr c \<longrightarrow>
            execute_tool e stp w
              = (case write_file e p c False w of
                   (Inl x, w') \<Rightarrow> (Inr (''Error in write_file: '' @ exn_text x), w')
                 | (Inr out, w') \<Rightarrow> (Inr out, w')))"
proof -
  have 1: "\<not> py_truthy content \<or> py_eq content hint \<longrightarrow>
            execute_tool e stp w = (Inr (needs_content e path), w)"
    using assms
    by (simp add: execute_tool_def TOOL_MAP_def dispatch_def with_args_def Let_def needs_content_def)
  have 2: "map_of kv ''content'' = None \<longrightarrow> py_eq content hint"
    using assms(5) by (simp add: dict_get_def py_eq_refl)
  have 3: "map_of kv ''content'' = Some (JStr []) \<longrightarrow> \<not> py_truthy content"
    using assms(5) by (simp add: dict_get_def)
  have 4: "py_truthy content \<and> \<not> py_eq content hint \<and> path = JStr p \<and> content = JStr c \<longrightarrow>
            execute_tool e stp w
              = (case write_file e p c False w of
                   (Inl x, w') \<Rightarrow> (Inr (''Error in write_file: '' @ exn_text x), w')
                 | (Inr out, w') \<Rightarrow> (Inr out, w'))"
    using assms
    by (auto simp: execute_tool_def TOOL_MAP_def dispatch_def with_args_def Let_def
             split: prod.splits sum.splits)
  from 1 2 3 4 show ?thesis by blast
qed

theorem write_file_dispatch_needs_literal_content_witness:
  "execute_tool quiet_env hinted_write (world_with (\<lambda>p. Absent))
     = (Inr ''Skipped write_file(app.py): content generation requires model call (Task 5)'',
        world_with (\<lambda>p. Absent))
   \<and> execute_tool quiet_env literal_write (world_with (\<lambda>p. Absent))
     = (Inr ''Written: app.py'',
        \<lparr>fs = (\<lambda>p. Absent)(''/repo/app.py'' := File ''import logging''),
         pending_writes = [(''/repo/app.py'', [], ''import logging'')],
         prompts_asked = 0, confirms_asked = 1, spawned = 0, chats = 0\<rparr>)"
proof -
  have h: "execute_tool quiet_env hinted_write (world_with (\<lambda>p. Absent))
     = (Inr ''Skipped write_file(app.py): content generation requires model call (Task 5)'',
        world_with (\<lambda>p. Absent))"
    using write_file_dispatch_needs_literal_content
      [of hinted_write "[(''path'', JStr ''app.py''), (''content_hint'', JStr ''add a logger'')]"
          "JStr ''add a logger''" "JStr ''app.py''" "JStr ''add a logger''"
          quiet_env "world_with (\<lambda>p. Absent)" "''app.py''" "''add a logger''"]
    by (simp add: hinted_write_def dict_get_def needs_content_def)
  have l: "execute_tool quiet_env literal_write (world_with (\<lambda>p. Absent))
     = (Inr ''Written: app.py'',
        \<lparr>fs = (\<lambda>p. Absent)(''/repo/app.py'' := File ''import logging''),
         pending_writes = [(''/repo/app.py'', [], ''import logging'')],
         prompts_asked = 0, confirms_asked = 1, spawned = 0, chats = 0\<rparr>)"
    using write_file_dispatch_needs_literal_content
      [of literal_write "[(''path'', JStr ''app.py''), (''content_hint'', JStr ''add a logger''),
                   (''content'', JStr ''import logging'')]"
          "JStr ''add a logger''" "JStr ''app.py''" "JStr ''import logging''"
          quiet_env "world_with (\<lambda>p. Absent)" "''app.py''" "''import logging''"]
    by (simp add: literal_write_def dict_get_def write_file_def current_text_def Let_def
          ask_confirm_def quiet_env_def world_with_def)
  from h l show ?thesis by simp
qed

subsection \<open>Dispatch of \<open>run_cmd\<close>\<close>





subsection \<open>Abort\<close>










section \<open>Properties of the planner\<close>

subsection \<open>Deleting matches\<close>









subsection \<open>The fences around a JSON object\<close>
















subsection \<open>Recovering the plan\<close>








section \<open>Properties of the fix loop\<close>

subsection \<open>What a cycle leaves unchanged\<close>




subsection \<open>Plans that can be displayed\<close>





subsection \<open>One cycle\<close>



subsection \<open>Three cycles\<close>





end
